theory Spec2Isabelle
  imports Main "HOL-Library.Multiset"
begin

section \<open>Data model\<close>

text \<open>
  The region API of rhub (\<^verbatim>\<open>rhub/api/lab/region.py\<close>) works on rows of a relational
  store through an ORM session. Rows are records, the tables are lists of rows in storage
  order, and identifiers are natural numbers.
\<close>

type_synonym user_id = nat
type_synonym group_id = nat

text \<open>
  A quota or quota-usage mapping is a Python dict from limit name to a number or
  \<^verbatim>\<open>None\<close>; it is kept as an association list in insertion order, which is the
  order in which \<^verbatim>\<open>keys()\<close> iterates.
\<close>

type_synonym quota = "(string \<times> int option) list"

record region =
  rid :: nat
  name :: string
  enabled :: bool
  reservations_enabled :: bool
  location_id :: "nat option"
  owner_group_id :: group_id
  users_group_id :: "group_id option"
  tower_id :: nat
  openstack_id :: nat
  satellite_id :: "nat option"
  dns_id :: "nat option"
  user_quota :: "quota option"
  total_quota :: "quota option"

record location =
  loc_id :: nat
  loc_name :: string

record auth_group =
  grp_id :: group_id
  grp_name :: string

record product =
  pid :: nat
  product_name :: string
  product_enabled :: bool

record region_product =
  region_id :: nat
  product_id :: nat
  rp_enabled :: bool

record db =
  regions :: "region list"
  locations :: "location list"
  groups :: "auth_group list"
  products :: "product list"
  region_products :: "region_product list"

text \<open>
  A value handed to the query layer as the right operand of a column operator.
\<close>

datatype pyval = PNone | PBool bool | PInt int | PStr string

text \<open>
  The criterion that \<^verbatim>\<open>list_region_products\<close> hands to the store for the dynamic
  relation \<^verbatim>\<open>region.products_relation\<close>, as the source writes it.
\<close>

datatype criterion = ProductEnabledEq bool

text \<open>
  Outcomes other than a success payload: the response built by
  \<^verbatim>\<open>connexion.problem(status, title, detail)\<close>, the raised
  \<^verbatim>\<open>werkzeug.exceptions.Forbidden\<close>, the Python exceptions the module can run into,
  the \<^verbatim>\<open>sqlalchemy.exc.ArgumentError\<close> raised when a column operator is given an operand
  it cannot take, and a failure of the storage engine.
\<close>

datatype error =
    Problem nat string string
  | Forbidden string
  | KeyError string
  | TypeError
  | AttributeError
  | ArgumentError
  | StorageError

text \<open>
  What the module calls but does not define, taken as parameters: the two functions of
  \<^verbatim>\<open>rhub.auth.utils\<close>, the storage engine's case-insensitive pattern match, its
  evaluation of a criterion over a relation, \<^verbatim>\<open>rhub.api.utils.db_sort\<close>, and, from the
  region model, the two consumption readers and the two conversions from a request body
  (a JSON object, kept as an association list).
\<close>

type_synonym body = "(string \<times> pyval) list"

record env =
  user_is_admin :: "user_id \<Rightarrow> bool"
  user_group_ids :: "user_id \<Rightarrow> group_id list"
  ilike :: "string \<Rightarrow> pyval \<Rightarrow> bool"
  relation_filter :: "criterion \<Rightarrow> region_product list \<Rightarrow> region_product list"
  db_sort :: "(region \<times> location option) list \<Rightarrow> string \<Rightarrow> (string \<times> string) list
    \<Rightarrow> error + (region \<times> location option) list"
  get_user_quota_usage :: "region \<Rightarrow> user_id \<Rightarrow> quota option"
  get_total_quota_usage :: "region \<Rightarrow> quota option"
  from_dict :: "body \<Rightarrow> region"
  update_from_dict :: "region \<Rightarrow> body \<Rightarrow> region"

section \<open>Rendering of identifiers in messages\<close>

fun digit_char :: "nat \<Rightarrow> char" where
  "digit_char n = char_of (48 + n)"

fun str_nat :: "nat \<Rightarrow> string" where
  "str_nat n = (if n < 10 then [digit_char n] else str_nat (n div 10) @ [digit_char (n mod 10)])"

declare str_nat.simps [simp del]

section \<open>Access policy\<close>

definition user_can_access_region :: "env \<Rightarrow> region \<Rightarrow> user_id \<Rightarrow> bool" where
  "user_can_access_region e r u =
     (if user_is_admin e u then True
      else if users_group_id r = None then True
      else (let user_groups = user_group_ids e u
            in (case users_group_id r of None \<Rightarrow> False | Some g \<Rightarrow> g \<in> set user_groups)
               \<or> owner_group_id r \<in> set user_groups))"

definition user_can_modify_region :: "env \<Rightarrow> region \<Rightarrow> user_id \<Rightarrow> bool" where
  "user_can_modify_region e r u =
     (if user_is_admin e u then True
      else owner_group_id r \<notin> set (user_group_ids e u))"

subsection \<open>The scoped query\<close>

text \<open>
  The filter of \<^verbatim>\<open>_query_regions_with_permissions\<close> is evaluated by the store, in
  SQL's three-valued logic: a comparison with a null column is unknown, and a row is kept
  when the condition is true.
\<close>

definition sql_is_none :: "'a option \<Rightarrow> bool option" where
  "sql_is_none v = Some (v = None)"

definition sql_in :: "'a option \<Rightarrow> 'a list \<Rightarrow> bool option" where
  "sql_in v xs = map_option (\<lambda>x. x \<in> set xs) v"

fun sql_or :: "bool option \<Rightarrow> bool option \<Rightarrow> bool option" where
  "sql_or (Some True) _ = Some True"
| "sql_or _ (Some True) = Some True"
| "sql_or (Some False) (Some False) = Some False"
| "sql_or _ _ = None"

definition sql_holds :: "bool option \<Rightarrow> bool" where
  "sql_holds c = (c = Some True)"

definition query_regions_with_permissions :: "env \<Rightarrow> user_id \<Rightarrow> db \<Rightarrow> region list" where
  "query_regions_with_permissions e user d =
     (if user_is_admin e user then regions d
      else (let user_groups = user_group_ids e user
            in filter (\<lambda>r. sql_holds
                 (sql_or (sql_is_none (users_group_id r))
                   (sql_or (sql_in (users_group_id r) user_groups)
                           (sql_in (Some (owner_group_id r)) user_groups))))
                 (regions d)))"

section \<open>The storage session\<close>

text \<open>
  Modelled from the spec: \<^verbatim>\<open>db.session\<close> (the ORM session of \<^verbatim>\<open>rhub.api\<close>) is not
  part of the module. Following sections 5 and 9 of the specification it is a
  transactional context: writes are made on the transaction's view \<open>work\<close> and reach the
  stored state only at \<open>commit\<close>; when the store fails, the call raises and the
  transaction is rolled back, so that either all writes commit or none do. The calls that
  talk to the store are \<open>flush\<close> and \<open>commit\<close>; \<open>budget\<close> is the number of such calls
  that succeed before the store fails (\<open>None\<close>: it never fails; a uniqueness violation is
  one such failure). The \<open>journal\<close> lists the session calls made so far.
\<close>

datatype call =
    Add_region region
  | Add_relation region_product
  | Delete_relation region_product
  | Delete_region region
  | Flush
  | Commit

record session =
  stored :: db
  work :: db
  journal :: "call list"
  budget :: "nat option"

type_synonym 'a result = "(error + 'a) \<times> session"

definition rollback :: "session \<Rightarrow> session" where
  "rollback s = s\<lparr>work := stored s\<rparr>"

definition flush :: "session \<Rightarrow> unit result" where
  "flush s =
     (case budget s of
        None \<Rightarrow> (Inr (), s\<lparr>journal := journal s @ [Flush]\<rparr>)
      | Some 0 \<Rightarrow> (Inl StorageError, rollback s)
      | Some (Suc n) \<Rightarrow> (Inr (), s\<lparr>journal := journal s @ [Flush], budget := Some n\<rparr>))"

definition commit :: "session \<Rightarrow> unit result" where
  "commit s =
     (case budget s of
        None \<Rightarrow> (Inr (), s\<lparr>stored := work s, journal := journal s @ [Commit]\<rparr>)
      | Some 0 \<Rightarrow> (Inl StorageError, rollback s)
      | Some (Suc n) \<Rightarrow>
          (Inr (), s\<lparr>stored := work s, journal := journal s @ [Commit], budget := Some n\<rparr>))"

definition fresh_rid :: "db \<Rightarrow> nat" where
  "fresh_rid d = Suc (fold max (map rid (regions d)) 0)"

definition session_add_region :: "region \<Rightarrow> session \<Rightarrow> session" where
  "session_add_region r s =
     s\<lparr>work := (work s)\<lparr>regions := regions (work s) @ [r]\<rparr>,
       journal := journal s @ [Add_region r]\<rparr>"

definition session_add_relation :: "region_product \<Rightarrow> session \<Rightarrow> session" where
  "session_add_relation rel s =
     s\<lparr>work := (work s)\<lparr>region_products := region_products (work s) @ [rel]\<rparr>,
       journal := journal s @ [Add_relation rel]\<rparr>"

definition same_key :: "region_product \<Rightarrow> region_product \<Rightarrow> bool" where
  "same_key a b = (region_id a = region_id b \<and> product_id a = product_id b)"

definition session_delete_relation :: "region_product \<Rightarrow> session \<Rightarrow> session" where
  "session_delete_relation rel s =
     s\<lparr>work := (work s)\<lparr>region_products :=
                 filter (\<lambda>x. \<not> same_key x rel) (region_products (work s))\<rparr>,
       journal := journal s @ [Delete_relation rel]\<rparr>"

definition session_delete_region :: "region \<Rightarrow> session \<Rightarrow> session" where
  "session_delete_region r s =
     s\<lparr>work := (work s)\<lparr>regions := filter (\<lambda>x. rid x \<noteq> rid r) (regions (work s))\<rparr>,
       journal := journal s @ [Delete_region r]\<rparr>"

text \<open>\<^verbatim>\<open>Model.query.get(id)\<close>: the row with that primary key, in the transaction's view.\<close>

definition region_get :: "session \<Rightarrow> nat \<Rightarrow> region option" where
  "region_get s i = find (\<lambda>r. rid r = i) (regions (work s))"

definition product_get :: "session \<Rightarrow> nat \<Rightarrow> product option" where
  "product_get s i = find (\<lambda>p. pid p = i) (products (work s))"

definition region_not_found :: "nat \<Rightarrow> error" where
  "region_not_found i = Problem 404 ''Not Found'' (''Region '' @ str_nat i @ '' does not exist'')"

definition product_not_found :: "nat \<Rightarrow> error" where
  "product_not_found i =
     Problem 404 ''Not Found'' (''Product '' @ str_nat i @ '' does not exist'')"

section \<open>Region operations\<close>

text \<open>A link is the endpoint name and the identifier given to \<^verbatim>\<open>url_for\<close>.\<close>

type_synonym href = "(string \<times> string \<times> nat) list"

definition optional_link :: "string \<Rightarrow> string \<Rightarrow> nat option \<Rightarrow> href" where
  "optional_link key endpoint v =
     (case v of None \<Rightarrow> [] | Some n \<Rightarrow> if n \<noteq> 0 then [(key, endpoint, n)] else [])"

definition region_href :: "region \<Rightarrow> href" where
  "region_href r =
     [(''region'', ''.rhub_api_lab_region_get_region'', rid r),
      (''region_usage'', ''.rhub_api_lab_region_get_usage'', rid r),
      (''region_products'', ''.rhub_api_lab_region_list_region_products'', rid r),
      (''tower'', ''.rhub_api_tower_get_server'', tower_id r),
      (''owner_group'', ''.rhub_api_auth_group_group_get'', owner_group_id r),
      (''openstack_cloud'', ''.rhub_api_openstack_cloud_get'', openstack_id r)]
     @ optional_link ''satellite_server'' ''.rhub_api_satellite_server_get'' (satellite_id r)
     @ optional_link ''dns_server'' ''.rhub_api_dns_server_get'' (dns_id r)
     @ optional_link ''users_group'' ''.rhub_api_auth_group_group_get'' (users_group_id r)"

text \<open>The payload \<^verbatim>\<open>region.to_dict() | {'_href': _region_href(region)}\<close>.\<close>

definition region_payload :: "region \<Rightarrow> region \<times> href" where
  "region_payload r = (r, region_href r)"

text \<open>
  The store assigns the primary key of a new region when it is added, and an update keeps
  the primary key of the row (section 3 of the specification: \<open>id\<close> is unique and
  immutable).
\<close>

definition create_region :: "env \<Rightarrow> body \<Rightarrow> user_id \<Rightarrow> session \<Rightarrow> (region \<times> href) result" where
  "create_region e b user s =
     (let region = (from_dict e b)\<lparr>rid := fresh_rid (work s)\<rparr>;
          s1 = session_add_region region s
      in case commit s1 of
           (Inl err, s2) \<Rightarrow> (Inl err, s2)
         | (Inr _, s2) \<Rightarrow> (Inr (region_payload region), s2))"

definition get_region :: "env \<Rightarrow> nat \<Rightarrow> user_id \<Rightarrow> session \<Rightarrow> (region \<times> href) result" where
  "get_region e i user s =
     (case region_get s i of
        None \<Rightarrow> (Inl (region_not_found i), s)
      | Some region \<Rightarrow>
          if \<not> user_can_access_region e region user
          then (Inl (Forbidden ''You don't have access to this region.''), s)
          else (Inr (region_payload region), s))"

definition set_region :: "region \<Rightarrow> session \<Rightarrow> session" where
  "set_region r s =
     s\<lparr>work := (work s)\<lparr>regions :=
                 map (\<lambda>x. if rid x = rid r then r else x) (regions (work s))\<rparr>\<rparr>"

definition update_region ::
  "env \<Rightarrow> nat \<Rightarrow> body \<Rightarrow> user_id \<Rightarrow> session \<Rightarrow> (region \<times> href) result" where
  "update_region e i b user s =
     (case region_get s i of
        None \<Rightarrow> (Inl (region_not_found i), s)
      | Some region \<Rightarrow>
          if \<not> user_can_modify_region e region user
          then (Inl (Forbidden ''You don't have write access to this region.''), s)
          else (let region' = (update_from_dict e region b)\<lparr>rid := rid region\<rparr>
                in case commit (set_region region' s) of
                     (Inl err, s2) \<Rightarrow> (Inl err, s2)
                   | (Inr _, s2) \<Rightarrow> (Inr (region_payload region'), s2)))"

definition relations_of_region :: "session \<Rightarrow> nat \<Rightarrow> region_product list" where
  "relations_of_region s i = filter (\<lambda>x. region_id x = i) (region_products (work s))"

definition delete_region :: "env \<Rightarrow> nat \<Rightarrow> user_id \<Rightarrow> session \<Rightarrow> unit result" where
  "delete_region e i user s =
     (case region_get s i of
        None \<Rightarrow> (Inl (region_not_found i), s)
      | Some region \<Rightarrow>
          if \<not> user_can_modify_region e region user
          then (Inl (Forbidden ''You don't have write access to this region.''), s)
          else (let q = relations_of_region s (rid region)
                in case (if length q > 0 then flush (fold session_delete_relation q s)
                         else (Inr (), s)) of
                     (Inl err, s1) \<Rightarrow> (Inl err, s1)
                   | (Inr _, s1) \<Rightarrow> commit (session_delete_region region s1)))"

subsection \<open>Product associations\<close>

text \<open>
  The body of an association request after the request layer has validated it: the
  product's id, and \<^verbatim>\<open>enabled\<close> when the field is present.
\<close>

record product_ref =
  ref_id :: nat
  ref_enabled :: "bool option"

record region_filter =
  f_name :: "string option"
  f_location :: "string option"
  f_enabled :: "bool option"
  f_reservations_enabled :: "bool option"
  f_owner_group_id :: "group_id option"
  f_owner_group_name :: "string option"
  f_users_group_id :: "group_id option"
  f_users_group_name :: "string option"

record product_filter =
  pf_name :: "string option"
  pf_enabled :: "bool option"

type_synonym relation_entry = "region_product \<times> product option \<times> href"

definition relation_entry :: "session \<Rightarrow> region \<Rightarrow> region_product \<Rightarrow> relation_entry" where
  "relation_entry s region r = (r, product_get s (product_id r), region_href region)"

text \<open>
  In the \<^verbatim>\<open>name\<close> branch the source evaluates
  \<^verbatim>\<open>model.Region.name.ilike(filter_['enabled'])\<close>: the subscript raises \<^verbatim>\<open>KeyError\<close>
  when the filter has no \<^verbatim>\<open>enabled\<close>, and otherwise the operand is a boolean, which
  \<^verbatim>\<open>ilike\<close> on a string column refuses with \<^verbatim>\<open>ArgumentError\<close> while the expression is
  built. No criterion for the name reaches the store.
\<close>

definition list_region_products ::
  "env \<Rightarrow> nat \<Rightarrow> user_id \<Rightarrow> product_filter \<Rightarrow> session \<Rightarrow> error + relation_entry list" where
  "list_region_products e i user f s =
     (case region_get s i of
        None \<Rightarrow> Inl (region_not_found i)
      | Some region \<Rightarrow>
          if \<not> user_can_access_region e region user
          then Inl (Forbidden ''You don't have access to this region.'')
          else (let products_relation = relations_of_region s (rid region)
                in case (if pf_name f \<noteq> None
                         then (case pf_enabled f of
                                 None \<Rightarrow> Inl (KeyError ''enabled'')
                               | Some b \<Rightarrow> Inl ArgumentError)
                         else Inr products_relation) of
                     Inl err \<Rightarrow> Inl err
                   | Inr rel1 \<Rightarrow>
                       (let rel2 = (case pf_enabled f of
                                      None \<Rightarrow> rel1
                                    | Some b \<Rightarrow> relation_filter e (ProductEnabledEq b) rel1)
                        in Inr (map (relation_entry s region) rel2))))"

definition relations_of_pair :: "session \<Rightarrow> nat \<Rightarrow> nat \<Rightarrow> region_product list" where
  "relations_of_pair s i j =
     filter (\<lambda>x. region_id x = i \<and> product_id x = j) (region_products (work s))"

definition set_enabled :: "nat \<Rightarrow> nat \<Rightarrow> bool \<Rightarrow> session \<Rightarrow> session" where
  "set_enabled i j b s =
     s\<lparr>work := (work s)\<lparr>region_products :=
                 map (\<lambda>x. if region_id x = i \<and> product_id x = j then x\<lparr>rp_enabled := b\<rparr> else x)
                   (region_products (work s))\<rparr>\<rparr>"

definition add_region_product ::
  "env \<Rightarrow> nat \<Rightarrow> product_ref \<Rightarrow> user_id \<Rightarrow> session \<Rightarrow> unit result" where
  "add_region_product e i b user s =
     (case region_get s i of
        None \<Rightarrow> (Inl (region_not_found i), s)
      | Some region \<Rightarrow>
          if \<not> user_can_modify_region e region user
          then (Inl (Forbidden ''You don't have write access to this region.''), s)
          else (case product_get s (ref_id b) of
                  None \<Rightarrow> (Inl (product_not_found (ref_id b)), s)
                | Some product \<Rightarrow>
                    (let q = relations_of_pair s (rid region) (pid product)
                     in if length q = 0
                        then commit (session_add_relation
                               \<lparr>region_id = rid region, product_id = pid product,
                                rp_enabled = (case ref_enabled b of None \<Rightarrow> True | Some v \<Rightarrow> v)\<rparr> s)
                        else (case ref_enabled b of
                                Some v \<Rightarrow> commit (set_enabled (rid region) (pid product) v s)
                              | None \<Rightarrow> (Inr (), s)))))"

definition delete_region_product ::
  "env \<Rightarrow> nat \<Rightarrow> product_ref \<Rightarrow> user_id \<Rightarrow> session \<Rightarrow> unit result" where
  "delete_region_product e i b user s =
     (case region_get s i of
        None \<Rightarrow> (Inl (region_not_found i), s)
      | Some region \<Rightarrow>
          if \<not> user_can_modify_region e region user
          then (Inl (Forbidden ''You don't have write access to this region.''), s)
          else (case product_get s (ref_id b) of
                  None \<Rightarrow> (Inl (product_not_found (ref_id b)), s)
                | Some product \<Rightarrow>
                    (let q = relations_of_pair s (rid region) (pid product)
                     in if length q > 0
                        then commit (fold session_delete_relation q s)
                        else (Inr (), s))))"

subsection \<open>Listing regions\<close>

text \<open>
  The outer joins of \<^verbatim>\<open>list_regions\<close> are on primary keys, so each region row is
  paired with at most one row of the joined table; a column of a missing row is null, and
  a comparison with null keeps no row.
\<close>

definition location_of :: "db \<Rightarrow> region \<Rightarrow> location option" where
  "location_of d r =
     (case location_id r of None \<Rightarrow> None | Some l \<Rightarrow> find (\<lambda>x. loc_id x = l) (locations d))"

definition group_of :: "db \<Rightarrow> group_id option \<Rightarrow> auth_group option" where
  "group_of d g = (case g of None \<Rightarrow> None | Some i \<Rightarrow> find (\<lambda>x. grp_id x = i) (groups d))"

definition when_present :: "'v option \<Rightarrow> ('v \<Rightarrow> 'a \<Rightarrow> bool) \<Rightarrow> 'a list \<Rightarrow> 'a list" where
  "when_present v p xs = (case v of None \<Rightarrow> xs | Some x \<Rightarrow> filter (p x) xs)"

type_synonym region_row = "region \<times> location option"

definition filtered_regions :: "env \<Rightarrow> user_id \<Rightarrow> region_filter \<Rightarrow> db \<Rightarrow> region_row list" where
  "filtered_regions e user f d =
     (let regions0 = map (\<lambda>r. (r, location_of d r)) (query_regions_with_permissions e user d);
          regions1 = when_present (f_name f)
                       (\<lambda>v (r, l). ilike e (name r) (PStr v)) regions0;
          regions2 = when_present (f_location f)
                       (\<lambda>v (r, l). case l of None \<Rightarrow> False
                                    | Some loc \<Rightarrow> ilike e (loc_name loc) (PStr v)) regions1;
          regions3 = when_present (f_enabled f) (\<lambda>v (r, l). enabled r = v) regions2;
          regions4 = when_present (f_reservations_enabled f)
                       (\<lambda>v (r, l). reservations_enabled r = v) regions3;
          regions5 = when_present (f_owner_group_id f)
                       (\<lambda>v (r, l). owner_group_id r = v) regions4;
          regions6 = when_present (f_owner_group_name f)
                       (\<lambda>v (r, l). case group_of d (Some (owner_group_id r)) of
                                      None \<Rightarrow> False | Some g \<Rightarrow> grp_name g = v) regions5;
          regions7 = when_present (f_users_group_id f)
                       (\<lambda>v (r, l). users_group_id r = Some v) regions6
      in when_present (f_users_group_name f)
           (\<lambda>v (r, l). case group_of d (users_group_id r) of
                          None \<Rightarrow> False | Some g \<Rightarrow> grp_name g = v) regions7)"

definition sort_columns :: "(string \<times> string) list" where
  "sort_columns = [(''name'', ''lab_region.name''), (''location'', ''lab_location.name'')]"

record region_page =
  data :: "(region \<times> href) list"
  total :: nat

definition list_regions ::
  "env \<Rightarrow> user_id \<Rightarrow> region_filter \<Rightarrow> string option \<Rightarrow> nat \<Rightarrow> nat \<Rightarrow> session
     \<Rightarrow> error + region_page" where
  "list_regions e user f sort_by page limit s =
     (let regions = filtered_regions e user f (work s)
      in case (case sort_by of
                 None \<Rightarrow> Inr regions
               | Some srt \<Rightarrow> if srt \<noteq> [] then db_sort e regions srt sort_columns
                             else Inr regions) of
           Inl err \<Rightarrow> Inl err
         | Inr sorted_regions \<Rightarrow>
             Inr \<lparr>data = map (\<lambda>(r, l). region_payload r)
                           (take limit (drop (page * limit) sorted_regions)),
                  total = length sorted_regions\<rparr>)"

text \<open>
  The regions a listing is about, in one predicate: a region is readable by the caller and
  meets every criterion present in the filter, each criterion read as \<^verbatim>\<open>list_regions\<close>
  applies it.
\<close>

definition region_matches :: "env \<Rightarrow> region_filter \<Rightarrow> db \<Rightarrow> region \<Rightarrow> bool" where
  "region_matches e f d r =
     ((case f_name f of None \<Rightarrow> True | Some v \<Rightarrow> ilike e (name r) (PStr v))
      \<and> (case f_location f of None \<Rightarrow> True
          | Some v \<Rightarrow> (case location_of d r of None \<Rightarrow> False
                       | Some loc \<Rightarrow> ilike e (loc_name loc) (PStr v)))
      \<and> (case f_enabled f of None \<Rightarrow> True | Some v \<Rightarrow> enabled r = v)
      \<and> (case f_reservations_enabled f of None \<Rightarrow> True | Some v \<Rightarrow> reservations_enabled r = v)
      \<and> (case f_owner_group_id f of None \<Rightarrow> True | Some v \<Rightarrow> owner_group_id r = v)
      \<and> (case f_owner_group_name f of None \<Rightarrow> True
          | Some v \<Rightarrow> (case group_of d (Some (owner_group_id r)) of None \<Rightarrow> False
                       | Some g \<Rightarrow> grp_name g = v))
      \<and> (case f_users_group_id f of None \<Rightarrow> True | Some v \<Rightarrow> users_group_id r = Some v)
      \<and> (case f_users_group_name f of None \<Rightarrow> True
          | Some v \<Rightarrow> (case group_of d (users_group_id r) of None \<Rightarrow> False
                       | Some g \<Rightarrow> grp_name g = v)))"

definition matching_regions :: "env \<Rightarrow> user_id \<Rightarrow> region_filter \<Rightarrow> db \<Rightarrow> region list" where
  "matching_regions e u f d =
     filter (\<lambda>r. user_can_access_region e r u \<and> region_matches e f d r) (regions d)"

section \<open>Usage aggregation\<close>

record usage =
  usage_user_quota :: "quota option"
  usage_user_quota_usage :: "quota option"
  usage_total_quota :: "quota option"
  usage_total_quota_usage :: "quota option"

definition region_to_usage :: "env \<Rightarrow> region \<Rightarrow> user_id \<Rightarrow> usage" where
  "region_to_usage e region user =
     \<lparr>usage_user_quota = user_quota region,
      usage_user_quota_usage = get_user_quota_usage e region user,
      usage_total_quota = total_quota region,
      usage_total_quota_usage = get_total_quota_usage e region\<rparr>"

definition get_usage :: "env \<Rightarrow> nat \<Rightarrow> user_id \<Rightarrow> session \<Rightarrow> error + usage" where
  "get_usage e i user s =
     (case region_get s i of
        None \<Rightarrow> Inl (region_not_found i)
      | Some region \<Rightarrow>
          if \<not> user_can_access_region e region user
          then Inl (Forbidden ''You don't have access to this region.'')
          else Inr (region_to_usage e region user))"

subsection \<open>The merge \<^verbatim>\<open>add_usage\<close>\<close>

text \<open>Python truth value of a dict entry: \<^verbatim>\<open>None\<close> and \<^verbatim>\<open>0\<close> are false.\<close>

fun truthy :: "int option \<Rightarrow> bool" where
  "truthy None = False"
| "truthy (Some n) = (n \<noteq> 0)"

text \<open>
  \<^verbatim>\<open>usage2[key]\<close>: subscripting \<^verbatim>\<open>None\<close> raises \<^verbatim>\<open>TypeError\<close>, a missing key
  raises \<^verbatim>\<open>KeyError\<close>.
\<close>

definition getitem :: "quota option \<Rightarrow> string \<Rightarrow> error + int option" where
  "getitem d key =
     (case d of
        None \<Rightarrow> Inl TypeError
      | Some kv \<Rightarrow> (case map_of kv key of None \<Rightarrow> Inl (KeyError key) | Some v \<Rightarrow> Inr v))"

text \<open>\<^verbatim>\<open>a + b\<close> on entries: a sum of two numbers, \<^verbatim>\<open>TypeError\<close> when one is \<^verbatim>\<open>None\<close>.\<close>

fun py_add :: "int option \<Rightarrow> int option \<Rightarrow> error + int option" where
  "py_add (Some x) (Some y) = Inr (Some (x + y))"
| "py_add _ _ = Inl TypeError"

text \<open>
  One pass of the loop body for \<open>key\<close>, whose entry in \<^verbatim>\<open>usage1\<close> is \<open>v1\<close>: the
  \<^verbatim>\<open>try\<close> block, and on any exception the handler, whose own lookup of
  \<^verbatim>\<open>usage2[key]\<close> is not guarded.
\<close>

definition add_entry :: "int option \<Rightarrow> quota option \<Rightarrow> string \<Rightarrow> error + int option" where
  "add_entry v1 usage2 key =
     (case (case getitem usage2 key of Inl err \<Rightarrow> Inl err | Inr v2 \<Rightarrow> py_add v1 v2) of
        Inr v \<Rightarrow> Inr v
      | Inl _ \<Rightarrow>
          if truthy v1 then Inr v1
          else (case getitem usage2 key of
                  Inl err \<Rightarrow> Inl err
                | Inr v2 \<Rightarrow> if truthy v2 then Inr v2 else Inr None))"

fun add_entries :: "quota \<Rightarrow> quota option \<Rightarrow> error + quota" where
  "add_entries [] usage2 = Inr []"
| "add_entries ((key, v1) # rest) usage2 =
     (case add_entry v1 usage2 key of
        Inl err \<Rightarrow> Inl err
      | Inr v \<Rightarrow> (case add_entries rest usage2 of
                    Inl err \<Rightarrow> Inl err
                  | Inr result \<Rightarrow> Inr ((key, v) # result)))"

text \<open>\<^verbatim>\<open>usage1.keys()\<close> on \<^verbatim>\<open>None\<close> raises \<^verbatim>\<open>AttributeError\<close>, outside the \<^verbatim>\<open>try\<close>.\<close>

definition add_usage :: "quota option \<Rightarrow> quota option \<Rightarrow> error + quota" where
  "add_usage usage1 usage2 =
     (case usage1 of None \<Rightarrow> Inl AttributeError | Some kv \<Rightarrow> add_entries kv usage2)"

subsection \<open>\<^verbatim>\<open>get_all_usage\<close>\<close>

definition merge_usage :: "usage \<Rightarrow> usage \<Rightarrow> error + usage" where
  "merge_usage all_usage current =
     (case add_usage (usage_user_quota all_usage) (usage_user_quota current) of
        Inl err \<Rightarrow> Inl err
      | Inr a \<Rightarrow>
     (case add_usage (usage_user_quota_usage all_usage) (usage_user_quota_usage current) of
        Inl err \<Rightarrow> Inl err
      | Inr b \<Rightarrow>
     (case add_usage (usage_total_quota all_usage) (usage_total_quota current) of
        Inl err \<Rightarrow> Inl err
      | Inr c \<Rightarrow>
     (case add_usage (usage_total_quota_usage all_usage) (usage_total_quota_usage current) of
        Inl err \<Rightarrow> Inl err
      | Inr d \<Rightarrow>
          Inr \<lparr>usage_user_quota = Some a, usage_user_quota_usage = Some b,
               usage_total_quota = Some c, usage_total_quota_usage = Some d\<rparr>))))"

record all_usage =
  usage_all :: usage
  usage_by_region :: "(nat \<times> usage) list"

text \<open>The loop over \<^verbatim>\<open>regions[1:]\<close>, carrying the result dict.\<close>

fun fold_usage :: "env \<Rightarrow> user_id \<Rightarrow> all_usage \<Rightarrow> region list \<Rightarrow> error + all_usage" where
  "fold_usage e user acc [] = Inr acc"
| "fold_usage e user acc (r # rs) =
     (let current_region_usage = region_to_usage e r user
      in case merge_usage (usage_all acc) current_region_usage of
           Inl err \<Rightarrow> Inl err
         | Inr current_usage_all_region \<Rightarrow>
             fold_usage e user
               \<lparr>usage_all = current_usage_all_region,
                usage_by_region = usage_by_region acc @ [(rid r, current_region_usage)]\<rparr> rs)"

definition get_all_usage :: "env \<Rightarrow> user_id \<Rightarrow> session \<Rightarrow> error + all_usage" where
  "get_all_usage e user s =
     (case query_regions_with_permissions e user (work s) of
        [] \<Rightarrow> Inl (Problem 404 ''Not Found'' ''No regions exist'')
      | r0 # rest \<Rightarrow>
          fold_usage e user
            \<lparr>usage_all = region_to_usage e r0 user,
             usage_by_region = [(rid r0, region_to_usage e r0 user)]\<rparr> rest)"

section \<open>Outcome predicates\<close>

fun is_forbidden :: "error + 'a \<Rightarrow> bool" where
  "is_forbidden (Inl (Forbidden _)) = True"
| "is_forbidden _ = False"

section \<open>Sample data\<close>

text \<open>
  A small store used to run the operations: user 0 is an admin, user 1 belongs to group
  10, which owns both regions, user 2 belongs to group 20, the users group of the second
  region, and user 3 belongs to no group.
\<close>

definition sample_quota :: quota where
  "sample_quota = [(''num_vcpus'', Some 4), (''ram_mb'', Some 2048)]"

definition region_a :: region where
  "region_a = \<lparr>rid = 1, name = ''alpha'', enabled = True, reservations_enabled = True,
     location_id = None, owner_group_id = 10, users_group_id = None, tower_id = 1,
     openstack_id = 1, satellite_id = None, dns_id = None, user_quota = None,
     total_quota = Some sample_quota\<rparr>"

definition region_b :: region where
  "region_b = \<lparr>rid = 2, name = ''beta'', enabled = True, reservations_enabled = False,
     location_id = None, owner_group_id = 10, users_group_id = Some 20, tower_id = 1,
     openstack_id = 1, satellite_id = None, dns_id = None, user_quota = Some sample_quota,
     total_quota = Some sample_quota\<rparr>"

definition sample_env :: env where
  "sample_env = \<lparr>user_is_admin = (\<lambda>u. u = 0),
     user_group_ids = (\<lambda>u. if u = 1 then [10] else if u = 2 then [20] else []),
     ilike = (\<lambda>c p. case p of PStr x \<Rightarrow> take (length x) c = x | _ \<Rightarrow> False),
     relation_filter = (\<lambda>c xs. xs),
     db_sort = (\<lambda>rows srt cols. Inr (rev rows)),
     get_user_quota_usage = (\<lambda>r u. Some sample_quota),
     get_total_quota_usage = (\<lambda>r. Some sample_quota),
     from_dict = (\<lambda>b. region_b),
     update_from_dict = (\<lambda>r b. r)\<rparr>"

definition sample_db :: db where
  "sample_db = \<lparr>regions = [region_a, region_b], locations = [], groups = [],
     products = [\<lparr>pid = 7, product_name = ''rhel'', product_enabled = True\<rparr>,
                 \<lparr>pid = 8, product_name = ''fedora'', product_enabled = True\<rparr>],
     region_products = [\<lparr>region_id = 1, product_id = 7, rp_enabled = True\<rparr>,
                        \<lparr>region_id = 2, product_id = 7, rp_enabled = False\<rparr>,
                        \<lparr>region_id = 2, product_id = 8, rp_enabled = True\<rparr>]\<rparr>"

definition sample_session :: session where
  "sample_session = \<lparr>stored = sample_db, work = sample_db, journal = [], budget = None\<rparr>"

subsection \<open>A store for paging\<close>

definition prod_region :: "nat \<Rightarrow> string \<Rightarrow> bool \<Rightarrow> region" where
  "prod_region i nm en = region_a\<lparr>rid := i, name := nm, enabled := en\<rparr>"

definition paging_db :: db where
  "paging_db = sample_db\<lparr>regions :=
     [prod_region 1 ''prod-a'' True, prod_region 2 ''dev'' True, prod_region 3 ''prod-b'' True,
      prod_region 4 ''prod-c'' False, prod_region 5 ''prod-d'' True,
      prod_region 6 ''prod-e'' True, prod_region 7 ''prod-f'' True]\<rparr>"

definition paging_session :: session where
  "paging_session = sample_session\<lparr>stored := paging_db, work := paging_db\<rparr>"

definition prod_filter :: region_filter where
  "prod_filter = \<lparr>f_name = Some ''prod'', f_location = None, f_enabled = Some True,
     f_reservations_enabled = None, f_owner_group_id = None, f_owner_group_name = None,
     f_users_group_id = None, f_users_group_name = None\<rparr>"

section \<open>Unfolding the sample data\<close>

lemmas sample_defs = sample_session_def sample_db_def sample_env_def region_a_def region_b_def
  sample_quota_def

section \<open>The session's failures\<close>

lemma commit_Inl: "commit s = (Inl x, s') \<Longrightarrow> x = StorageError \<and> s' = rollback s"
  by (auto simp: commit_def split: option.splits nat.splits)

lemma flush_Inl: "flush s = (Inl x, s') \<Longrightarrow> x = StorageError \<and> s' = rollback s"
  by (auto simp: flush_def split: option.splits nat.splits)

lemma commit_not_forbidden: "\<not> is_forbidden (fst (commit s))"
  by (simp add: commit_def split: option.splits nat.splits)

section \<open>Write permission\<close>

text \<open>
  Claim C1. For a region \<open>r\<close> found under id \<open>i\<close> and any caller \<open>u\<close>, the write check
  \<^verbatim>\<open>_user_can_modify_region\<close> grants access exactly when \<open>u\<close> is an admin or does not
  belong to the region's owner group, and each of \<^verbatim>\<open>update_region\<close>,
  \<^verbatim>\<open>delete_region\<close>, \<^verbatim>\<open>add_region_product\<close> and \<^verbatim>\<open>delete_region_product\<close> ends in
  Forbidden exactly when \<open>u\<close> is a non-admin member of the owner group.
\<close>

theorem write_permission_policy:
  assumes "region_get s i = Some r"
  shows "(user_can_modify_region e r u \<longleftrightarrow>
            user_is_admin e u \<or> owner_group_id r \<notin> set (user_group_ids e u))
    \<and> (is_forbidden (fst (update_region e i b u s)) \<longleftrightarrow>
            \<not> user_is_admin e u \<and> owner_group_id r \<in> set (user_group_ids e u))
    \<and> (is_forbidden (fst (delete_region e i u s)) \<longleftrightarrow>
            \<not> user_is_admin e u \<and> owner_group_id r \<in> set (user_group_ids e u))
    \<and> (is_forbidden (fst (add_region_product e i p u s)) \<longleftrightarrow>
            \<not> user_is_admin e u \<and> owner_group_id r \<in> set (user_group_ids e u))
    \<and> (is_forbidden (fst (delete_region_product e i p u s)) \<longleftrightarrow>
            \<not> user_is_admin e u \<and> owner_group_id r \<in> set (user_group_ids e u))"
proof -
  have pol: "user_can_modify_region e r u \<longleftrightarrow>
            user_is_admin e u \<or> owner_group_id r \<notin> set (user_group_ids e u)"
    by (simp add: user_can_modify_region_def)
  have upd: "is_forbidden (fst (update_region e i b u s)) \<longleftrightarrow> \<not> user_can_modify_region e r u"
    using assms
    by (auto simp: update_region_def Let_def split: prod.splits sum.splits dest: commit_Inl)
  have del: "is_forbidden (fst (delete_region e i u s)) \<longleftrightarrow> \<not> user_can_modify_region e r u"
    using assms commit_not_forbidden
    by (auto simp: delete_region_def Let_def split: prod.splits sum.splits dest: flush_Inl)
  have add: "is_forbidden (fst (add_region_product e i p u s)) \<longleftrightarrow>
      \<not> user_can_modify_region e r u"
    using assms commit_not_forbidden
    by (auto simp: add_region_product_def product_not_found_def Let_def split: option.splits)
  have delp: "is_forbidden (fst (delete_region_product e i p u s)) \<longleftrightarrow>
      \<not> user_can_modify_region e r u"
    using assms commit_not_forbidden
    by (auto simp: delete_region_product_def product_not_found_def Let_def split: option.splits)
  show ?thesis using pol upd del add delp by blast
qed

theorem write_permission_policy_witness:
  "region_get sample_session 1 = Some region_a
   \<and> \<not> user_is_admin sample_env 1
   \<and> owner_group_id region_a \<in> set (user_group_ids sample_env 1)
   \<and> \<not> user_can_modify_region sample_env region_a 1
   \<and> is_forbidden (fst (update_region sample_env 1 [] 1 sample_session))
   \<and> is_forbidden (fst (delete_region sample_env 1 1 sample_session))
   \<and> is_forbidden (fst (add_region_product sample_env 1
         \<lparr>ref_id = 7, ref_enabled = None\<rparr> 1 sample_session))
   \<and> is_forbidden (fst (delete_region_product sample_env 1
         \<lparr>ref_id = 7, ref_enabled = None\<rparr> 1 sample_session))"
proof -
  have h: "region_get sample_session 1 = Some region_a"
    by (simp add: region_get_def sample_defs)
  show ?thesis
    using h write_permission_policy [OF h, where e = sample_env and u = 1 and b = "[]"
        and p = "\<lparr>ref_id = 7, ref_enabled = None\<rparr>"]
    by (simp add: sample_env_def region_a_def)
qed

section \<open>Read access and the scoped region set\<close>

lemma sql_scope_condition:
  "sql_holds (sql_or (sql_is_none ug) (sql_or (sql_in ug gs) (sql_in (Some og) gs)))
     \<longleftrightarrow> ug = None \<or> ug \<in> Some ` set gs \<or> og \<in> set gs"
  by (cases ug; cases "og \<in> set gs"; cases "the ug \<in> set gs")
     (auto simp: sql_holds_def sql_is_none_def sql_in_def)

lemma can_access_iff:
  "user_can_access_region e r u \<longleftrightarrow>
     user_is_admin e u \<or> users_group_id r = None
     \<or> users_group_id r \<in> Some ` set (user_group_ids e u)
     \<or> owner_group_id r \<in> set (user_group_ids e u)"
  by (auto simp: user_can_access_region_def Let_def split: option.splits)

lemma scoped_query_eq:
  "query_regions_with_permissions e u d = filter (\<lambda>r. user_can_access_region e r u) (regions d)"
proof (cases "user_is_admin e u")
  case True
  then show ?thesis
    by (simp add: query_regions_with_permissions_def user_can_access_region_def)
next
  case False
  then show ?thesis
    by (simp add: query_regions_with_permissions_def Let_def sql_scope_condition can_access_iff)
qed

text \<open>
Claim C2. Read access is granted exactly when the caller is an admin, or the region is
  shared (its users group is null), or the caller belongs to its users group or to its
  owner group; the scoped query of \<^verbatim>\<open>list_regions\<close> and \<^verbatim>\<open>get_all_usage\<close> keeps
  exactly the regions with read access, all of them for an admin; and for a region found
  under id \<open>i\<close>, each of \<^verbatim>\<open>get_region\<close>, \<^verbatim>\<open>get_usage\<close> and
  \<^verbatim>\<open>list_region_products\<close> ends in Forbidden exactly when read access is denied.
\<close>

theorem read_access_policy:
  "(user_can_access_region e r u \<longleftrightarrow>
      user_is_admin e u \<or> users_group_id r = None
      \<or> users_group_id r \<in> Some ` set (user_group_ids e u)
      \<or> owner_group_id r \<in> set (user_group_ids e u))
   \<and> query_regions_with_permissions e u d
       = filter (\<lambda>x. user_can_access_region e x u) (regions d)
   \<and> (user_is_admin e u \<longrightarrow> query_regions_with_permissions e u d = regions d)
   \<and> (region_get s i = Some r \<longrightarrow>
        (is_forbidden (fst (get_region e i u s)) \<longleftrightarrow> \<not> user_can_access_region e r u)
      \<and> (is_forbidden (get_usage e i u s) \<longleftrightarrow> \<not> user_can_access_region e r u)
      \<and> (is_forbidden (list_region_products e i u f s) \<longleftrightarrow> \<not> user_can_access_region e r u))"
proof -
  have adm: "user_is_admin e u \<longrightarrow> query_regions_with_permissions e u d = regions d"
    by (simp add: query_regions_with_permissions_def)
  have ops: "region_get s i = Some r \<longrightarrow>
        (is_forbidden (fst (get_region e i u s)) \<longleftrightarrow> \<not> user_can_access_region e r u)
      \<and> (is_forbidden (get_usage e i u s) \<longleftrightarrow> \<not> user_can_access_region e r u)
      \<and> (is_forbidden (list_region_products e i u f s) \<longleftrightarrow> \<not> user_can_access_region e r u)"
    by (auto simp: get_region_def get_usage_def list_region_products_def Let_def
        split: option.splits)
  show ?thesis using can_access_iff scoped_query_eq adm ops by blast
qed

theorem read_access_policy_witness:
  "region_get sample_session 2 = Some region_b
   \<and> user_is_admin sample_env 0
   \<and> query_regions_with_permissions sample_env 0 sample_db = [region_a, region_b]
   \<and> query_regions_with_permissions sample_env 3 sample_db = [region_a]
   \<and> \<not> user_can_access_region sample_env region_b 3
   \<and> is_forbidden (fst (get_region sample_env 2 3 sample_session))
   \<and> is_forbidden (get_usage sample_env 2 3 sample_session)
   \<and> is_forbidden (list_region_products sample_env 2 3
        \<lparr>pf_name = None, pf_enabled = None\<rparr> sample_session)
   \<and> user_can_access_region sample_env region_b 2
   \<and> \<not> is_forbidden (get_usage sample_env 2 2 sample_session)"
proof -
  have h: "region_get sample_session 2 = Some region_b"
    by (simp add: region_get_def sample_defs)
  have a: "user_is_admin sample_env 0" by (simp add: sample_env_def)
  note t3 = read_access_policy [where e = sample_env and r = region_b and u = 3
      and d = sample_db and s = sample_session and i = 2
      and f = "\<lparr>pf_name = None, pf_enabled = None\<rparr>"]
  note t2 = read_access_policy [where e = sample_env and r = region_b and u = 2
      and d = sample_db and s = sample_session and i = 2
      and f = "\<lparr>pf_name = None, pf_enabled = None\<rparr>"]
  note t0 = read_access_policy [where e = sample_env and r = region_b and u = 0
      and d = sample_db and s = sample_session and i = 2
      and f = "\<lparr>pf_name = None, pf_enabled = None\<rparr>"]
  have q0: "query_regions_with_permissions sample_env 0 sample_db = regions sample_db"
    using t0 a by blast
  have n3: "\<not> user_can_access_region sample_env region_b 3"
    using t3 by (simp add: sample_env_def region_b_def)
  have y2: "user_can_access_region sample_env region_b 2"
    using t2 by (simp add: sample_env_def region_b_def)
  have ya: "user_can_access_region sample_env region_a 3"
    by (simp add: user_can_access_region_def region_a_def)
  have q3: "query_regions_with_permissions sample_env 3 sample_db
      = filter (\<lambda>x. user_can_access_region sample_env x 3) (regions sample_db)"
    using t3 by blast
  have r: "regions sample_db = [region_a, region_b]" by (simp add: sample_db_def)
  have f3: "is_forbidden (fst (get_region sample_env 2 3 sample_session))
      \<and> is_forbidden (get_usage sample_env 2 3 sample_session)
      \<and> is_forbidden (list_region_products sample_env 2 3
           \<lparr>pf_name = None, pf_enabled = None\<rparr> sample_session)"
    using t3 h n3 by blast
  have f2: "\<not> is_forbidden (get_usage sample_env 2 2 sample_session)"
    using t2 h y2 by blast
  show ?thesis using h a q0 q3 r n3 y2 ya f3 f2 by simp
qed

section \<open>Usage over no accessible region\<close>

text \<open>
Claim C9. When the caller's scoped region set is empty, \<^verbatim>\<open>get_all_usage\<close> answers with
  the response \<^verbatim>\<open>problem(404, "Not Found", "No regions exist")\<close>: neither a success payload
  nor a Python exception.
\<close>

theorem no_regions_not_found:
  assumes "query_regions_with_permissions e u (work s) = []"
  shows "get_all_usage e u s = Inl (Problem 404 ''Not Found'' ''No regions exist'')"
  using assms by (simp add: get_all_usage_def)

theorem no_regions_not_found_witness:
  "query_regions_with_permissions sample_env 3
       (work (sample_session\<lparr>work := sample_db\<lparr>regions := [region_b]\<rparr>\<rparr>)) = []
   \<and> get_all_usage sample_env 3 (sample_session\<lparr>work := sample_db\<lparr>regions := [region_b]\<rparr>\<rparr>)
       = Inl (Problem 404 ''Not Found'' ''No regions exist'')"
proof -
  have h: "query_regions_with_permissions sample_env 3
       (work (sample_session\<lparr>work := sample_db\<lparr>regions := [region_b]\<rparr>\<rparr>)) = []"
    by (simp add: query_regions_with_permissions_def sample_defs sql_holds_def sql_is_none_def
        sql_in_def)
  show ?thesis using h no_regions_not_found [OF h] by simp
qed

section \<open>Creating a region\<close>

text \<open>
Claim C10. \<^verbatim>\<open>create_region\<close> makes no authorization check: its outcome does not depend on
  the caller, on who is an admin or on any group membership, and it is never Forbidden. When
  the store fails at the commit nothing is stored; otherwise the region is appended to the
  stored regions by one \<^verbatim>\<open>add\<close> and one \<^verbatim>\<open>commit\<close>.
\<close>

theorem create_region_unconditional:
  "create_region (e\<lparr>user_is_admin := a, user_group_ids := g\<rparr>) b u' s = create_region e b u s
   \<and> \<not> is_forbidden (fst (create_region e b u s))
   \<and> (budget s = Some 0 \<longrightarrow>
        fst (create_region e b u s) = Inl StorageError
        \<and> stored (snd (create_region e b u s)) = stored s
        \<and> work (snd (create_region e b u s)) = stored s)
   \<and> (budget s \<noteq> Some 0 \<longrightarrow>
        fst (create_region e b u s)
          = Inr (region_payload ((from_dict e b)\<lparr>rid := fresh_rid (work s)\<rparr>))
        \<and> regions (stored (snd (create_region e b u s)))
          = regions (work s) @ [(from_dict e b)\<lparr>rid := fresh_rid (work s)\<rparr>]
        \<and> journal (snd (create_region e b u s))
          = journal s @ [Add_region ((from_dict e b)\<lparr>rid := fresh_rid (work s)\<rparr>), Commit])"
proof -
  have indep: "create_region (e\<lparr>user_is_admin := a, user_group_ids := g\<rparr>) b u' s
      = create_region e b u s"
    by (simp add: create_region_def)
  have nf: "\<not> is_forbidden (fst (create_region e b u s))"
    by (auto simp: create_region_def Let_def split: prod.splits sum.splits dest: commit_Inl)
  have fail: "budget s = Some 0 \<longrightarrow>
        fst (create_region e b u s) = Inl StorageError
        \<and> stored (snd (create_region e b u s)) = stored s
        \<and> work (snd (create_region e b u s)) = stored s"
    by (simp add: create_region_def Let_def commit_def session_add_region_def rollback_def)
  have ok: "budget s \<noteq> Some 0 \<longrightarrow>
        fst (create_region e b u s)
          = Inr (region_payload ((from_dict e b)\<lparr>rid := fresh_rid (work s)\<rparr>))
        \<and> regions (stored (snd (create_region e b u s)))
          = regions (work s) @ [(from_dict e b)\<lparr>rid := fresh_rid (work s)\<rparr>]
        \<and> journal (snd (create_region e b u s))
          = journal s @ [Add_region ((from_dict e b)\<lparr>rid := fresh_rid (work s)\<rparr>), Commit]"
    by (auto simp: create_region_def Let_def commit_def session_add_region_def
        split: option.splits nat.splits)
  show ?thesis using indep nf fail ok by blast
qed

theorem create_region_unconditional_witness:
  "budget sample_session \<noteq> Some 0
   \<and> \<not> user_is_admin sample_env 1
   \<and> fst (create_region sample_env [] 1 sample_session)
       = Inr (region_payload (region_b\<lparr>rid := 3\<rparr>))
   \<and> regions (stored (snd (create_region sample_env [] 1 sample_session)))
       = [region_a, region_b, region_b\<lparr>rid := 3\<rparr>]
   \<and> fst (create_region sample_env [] 1 (sample_session\<lparr>budget := Some 0\<rparr>)) = Inl StorageError
   \<and> stored (snd (create_region sample_env [] 1 (sample_session\<lparr>budget := Some 0\<rparr>)))
       = sample_db"
proof -
  have b: "budget sample_session \<noteq> Some 0" by (simp add: sample_session_def)
  have b0: "budget (sample_session\<lparr>budget := Some 0\<rparr>) = Some 0" by simp
  have fr: "fresh_rid (work sample_session) = 3"
    by (simp add: fresh_rid_def sample_session_def sample_db_def region_a_def region_b_def)
  note t = create_region_unconditional [where e = sample_env and b = "[]" and u = 1
      and s = sample_session]
  note t0 = create_region_unconditional [where e = sample_env and b = "[]" and u = 1
      and s = "sample_session\<lparr>budget := Some 0\<rparr>"]
  have ok: "fst (create_region sample_env [] 1 sample_session)
       = Inr (region_payload ((from_dict sample_env [])\<lparr>rid := fresh_rid (work sample_session)\<rparr>))
     \<and> regions (stored (snd (create_region sample_env [] 1 sample_session)))
       = regions (work sample_session)
          @ [(from_dict sample_env [])\<lparr>rid := fresh_rid (work sample_session)\<rparr>]"
    using t b by blast
  have fail: "fst (create_region sample_env [] 1 (sample_session\<lparr>budget := Some 0\<rparr>))
        = Inl StorageError
      \<and> stored (snd (create_region sample_env [] 1 (sample_session\<lparr>budget := Some 0\<rparr>)))
        = stored (sample_session\<lparr>budget := Some 0\<rparr>)"
    using t0 b0 by blast
  show ?thesis using b ok fail fr
    by (simp add: sample_env_def sample_session_def sample_db_def)
qed

section \<open>Listing regions: filters, pagination and total\<close>

lemma when_present_filter:
  "when_present v p xs = filter (\<lambda>x. case v of None \<Rightarrow> True | Some a \<Rightarrow> p a x) xs"
  by (cases v) (simp_all add: when_present_def)

lemma filtered_regions_rows:
  "filtered_regions e u f d = map (\<lambda>r. (r, location_of d r)) (matching_regions e u f d)"
  unfolding filtered_regions_def Let_def when_present_filter matching_regions_def
    scoped_query_eq filter_map filter_filter comp_def
  by (rule arg_cong [where f = "map (\<lambda>r. (r, location_of d r))"], rule filter_cong)
     (auto simp: region_matches_def split: option.splits)

lemma list_regions_unsorted:
  "list_regions e u f None page limit s =
     Inr \<lparr>data = map region_payload
                  (take limit (drop (page * limit) (matching_regions e u f (work s)))),
          total = length (matching_regions e u f (work s))\<rparr>"
  by (simp add: list_regions_def filtered_regions_rows take_map drop_map comp_def)

lemma list_regions_sorted:
  assumes "srt \<noteq> []"
    and "db_sort e (filtered_regions e u f (work s)) srt sort_columns = Inr ys"
  shows "list_regions e u f (Some srt) page limit s =
     Inr \<lparr>data = map (\<lambda>(r, l). region_payload r) (take limit (drop (page * limit) ys)),
          total = length ys\<rparr>"
  using assms by (simp add: list_regions_def)

text \<open>
  Claim C8. For every store, filter, zero-based page index and page size,
  \<^verbatim>\<open>list_regions\<close> returns as \<open>data\<close> the slice of \<open>limit\<close> entries at offset
  \<open>page * limit\<close> of the regions that are readable by the caller and satisfy every
  criterion present in the filter, and as \<open>total\<close> the number of all such regions. With
  a sort key, for which \<^verbatim>\<open>db_sort\<close> returns a reordering of the rows, the slice is
  taken from the reordered rows and the total is the same.
\<close>

theorem list_regions_pagination:
  "list_regions e u f None page limit s =
     Inr \<lparr>data = map region_payload
                  (take limit (drop (page * limit) (matching_regions e u f (work s)))),
          total = length (matching_regions e u f (work s))\<rparr>
   \<and> (srt \<noteq> [] \<longrightarrow>
        db_sort e (filtered_regions e u f (work s)) srt sort_columns = Inr ys \<longrightarrow>
        mset ys = mset (filtered_regions e u f (work s)) \<longrightarrow>
        list_regions e u f (Some srt) page limit s =
          Inr \<lparr>data = map (\<lambda>(r, l). region_payload r) (take limit (drop (page * limit) ys)),
               total = length (matching_regions e u f (work s))\<rparr>)"
proof -
  have len: "mset ys = mset (filtered_regions e u f (work s)) \<longrightarrow>
      length ys = length (matching_regions e u f (work s))"
  proof
    assume "mset ys = mset (filtered_regions e u f (work s))"
    then have "length ys = length (filtered_regions e u f (work s))"
      by (rule mset_eq_length)
    then show "length ys = length (matching_regions e u f (work s))"
      by (simp add: filtered_regions_rows)
  qed
  show ?thesis using list_regions_unsorted list_regions_sorted len by simp
qed

lemma paging_matches:
  "matching_regions sample_env 3 prod_filter paging_db =
     [prod_region 1 ''prod-a'' True, prod_region 3 ''prod-b'' True, prod_region 5 ''prod-d'' True,
      prod_region 6 ''prod-e'' True, prod_region 7 ''prod-f'' True]"
  by (simp add: matching_regions_def region_matches_def user_can_access_region_def
      paging_db_def prod_filter_def prod_region_def sample_env_def region_a_def)

theorem list_regions_pagination_witness:
  "list_regions sample_env 3 prod_filter None 1 2 paging_session =
     Inr \<lparr>data = [region_payload (prod_region 5 ''prod-d'' True),
                  region_payload (prod_region 6 ''prod-e'' True)],
          total = 5\<rparr>
   \<and> list_regions sample_env 3 prod_filter (Some ''name'') 1 2 paging_session =
     Inr \<lparr>data = [region_payload (prod_region 5 ''prod-d'' True),
                  region_payload (prod_region 3 ''prod-b'' True)],
          total = 5\<rparr>"
proof -
  let ?rows = "filtered_regions sample_env 3 prod_filter (work paging_session)"
  have w: "work paging_session = paging_db" by (simp add: paging_session_def)
  have srt: "''name'' \<noteq> []" by simp
  have ds: "db_sort sample_env ?rows ''name'' sort_columns = Inr (rev ?rows)"
    by (simp add: sample_env_def)
  have ms: "mset (rev ?rows) = mset ?rows" by simp
  note t = list_regions_pagination [where e = sample_env and u = 3 and f = prod_filter
      and page = 1 and limit = 2 and s = paging_session and srt = "''name''"
      and ys = "rev ?rows"]
  have a: "list_regions sample_env 3 prod_filter None 1 2 paging_session =
     Inr \<lparr>data = map region_payload
                  (take 2 (drop (1 * 2) (matching_regions sample_env 3 prod_filter paging_db))),
          total = length (matching_regions sample_env 3 prod_filter paging_db)\<rparr>"
    using t w by simp
  have b: "list_regions sample_env 3 prod_filter (Some ''name'') 1 2 paging_session =
     Inr \<lparr>data = map (\<lambda>(r, l). region_payload r) (take 2 (drop (1 * 2) (rev ?rows))),
          total = length (matching_regions sample_env 3 prod_filter paging_db)\<rparr>"
    using t srt ds ms w by simp
  show ?thesis
    using a b by (simp add: paging_matches filtered_regions_rows w)
qed

section \<open>Adding a product to a region\<close>

lemma region_get_rid: "region_get s i = Some r \<Longrightarrow> rid r = i"
  by (auto simp: region_get_def find_Some_iff)

lemma product_get_pid: "product_get s j = Some p \<Longrightarrow> pid p = j"
  by (auto simp: product_get_def find_Some_iff)

lemma pair_filter_set_enabled:
  "filter (\<lambda>x. region_id x = i \<and> product_id x = j)
     (map (\<lambda>x. if region_id x = i \<and> product_id x = j then x\<lparr>rp_enabled := v\<rparr> else x) xs)
   = map (\<lambda>x. x\<lparr>rp_enabled := v\<rparr>) (filter (\<lambda>x. region_id x = i \<and> product_id x = j) xs)"
  by (induction xs) auto

lemma add_region_product_new:
  assumes "region_get s i = Some r" and "user_can_modify_region e r u"
    and "product_get s (ref_id b) = Some p" and "budget s = None"
    and "relations_of_pair s i (ref_id b) = []"
  shows "add_region_product e i b u s =
     (Inr (), s\<lparr>stored := (work s)\<lparr>region_products := region_products (work s) @
                  [\<lparr>region_id = i, product_id = ref_id b,
                    rp_enabled = (case ref_enabled b of None \<Rightarrow> True | Some v \<Rightarrow> v)\<rparr>]\<rparr>,
              work := (work s)\<lparr>region_products := region_products (work s) @
                  [\<lparr>region_id = i, product_id = ref_id b,
                    rp_enabled = (case ref_enabled b of None \<Rightarrow> True | Some v \<Rightarrow> v)\<rparr>]\<rparr>,
              journal := journal s @
                  [Add_relation \<lparr>region_id = i, product_id = ref_id b,
                    rp_enabled = (case ref_enabled b of None \<Rightarrow> True | Some v \<Rightarrow> v)\<rparr>,
                   Commit]\<rparr>)"
  using assms region_get_rid [OF assms(1)] product_get_pid [OF assms(3)]
  by (simp add: add_region_product_def Let_def commit_def session_add_relation_def)

lemma add_region_product_existing:
  assumes "region_get s i = Some r" and "user_can_modify_region e r u"
    and "product_get s (ref_id b) = Some p" and "budget s = None"
    and "relations_of_pair s i (ref_id b) \<noteq> []"
  shows "add_region_product e i b u s =
     (case ref_enabled b of
        None \<Rightarrow> (Inr (), s)
      | Some v \<Rightarrow>
          (Inr (), s\<lparr>stored := (work s)\<lparr>region_products :=
                        map (\<lambda>x. if region_id x = i \<and> product_id x = ref_id b
                                 then x\<lparr>rp_enabled := v\<rparr> else x) (region_products (work s))\<rparr>,
                    work := (work s)\<lparr>region_products :=
                        map (\<lambda>x. if region_id x = i \<and> product_id x = ref_id b
                                 then x\<lparr>rp_enabled := v\<rparr> else x) (region_products (work s))\<rparr>,
                    journal := journal s @ [Commit]\<rparr>))"
  using assms region_get_rid [OF assms(1)] product_get_pid [OF assms(3)]
  by (simp add: add_region_product_def Let_def commit_def set_enabled_def split: option.splits)

lemma map_unmatched:
  "filter K xs = [] \<Longrightarrow> map (\<lambda>x. if K x then f x else x) xs = xs"
  by (induction xs) (auto split: if_splits)

text \<open>
  Claim C5. For a region found under id \<open>i\<close>, a caller with write access, an existing
  product and a store that does not fail: when no row exists for the pair,
  \<^verbatim>\<open>add_region_product\<close> appends exactly one row, enabled unless the body says otherwise;
  a second call for the same pair leaves exactly that one row and changes its
  \<open>enabled\<close> flag only when the body carries the field (without it the state is
  untouched). In general, when a row exists the call adds none, changes nothing without
  the field, and with it sets the flag of the rows of that pair only.
\<close>

theorem add_region_product_upsert:
  assumes "region_get s i = Some r" and "user_can_modify_region e r u"
    and "product_get s (ref_id b) = Some p" and "budget s = None"
    and "ref_id b' = ref_id b"
  shows "let new = \<lparr>region_id = i, product_id = ref_id b,
                     rp_enabled = (case ref_enabled b of None \<Rightarrow> True | Some v \<Rightarrow> v)\<rparr>;
             new' = new\<lparr>rp_enabled := (case ref_enabled b' of None \<Rightarrow> rp_enabled new
                                          | Some v \<Rightarrow> v)\<rparr>;
             s1 = snd (add_region_product e i b u s);
             s2 = snd (add_region_product e i b' u s1)
         in (relations_of_pair s i (ref_id b) = [] \<longrightarrow>
               fst (add_region_product e i b u s) = Inr ()
               \<and> region_products (stored s1) = region_products (work s) @ [new]
               \<and> relations_of_pair s1 i (ref_id b) = [new]
               \<and> fst (add_region_product e i b' u s1) = Inr ()
               \<and> region_products (stored s2) = region_products (work s) @ [new']
               \<and> relations_of_pair s2 i (ref_id b) = [new']
               \<and> (ref_enabled b' = None \<longrightarrow> s2 = s1))
          \<and> (relations_of_pair s i (ref_id b) \<noteq> [] \<longrightarrow>
               fst (add_region_product e i b u s) = Inr ()
               \<and> length (region_products (work s1)) = length (region_products (work s))
               \<and> length (relations_of_pair s1 i (ref_id b))
                   = length (relations_of_pair s i (ref_id b))
               \<and> (ref_enabled b = None \<longrightarrow> s1 = s)
               \<and> (\<forall>v. ref_enabled b = Some v \<longrightarrow>
                     region_products (stored s1)
                       = map (\<lambda>x. if region_id x = i \<and> product_id x = ref_id b
                                  then x\<lparr>rp_enabled := v\<rparr> else x)
                           (region_products (work s))))"
proof -
  define new where "new = \<lparr>region_id = i, product_id = ref_id b,
                     rp_enabled = (case ref_enabled b of None \<Rightarrow> True | Some v \<Rightarrow> v)\<rparr>"
  define new' where "new' = new\<lparr>rp_enabled := (case ref_enabled b' of None \<Rightarrow> rp_enabled new
                                          | Some v \<Rightarrow> v)\<rparr>"
  define s1 where "s1 = snd (add_region_product e i b u s)"
  define s2 where "s2 = snd (add_region_product e i b' u s1)"
  have first: "fst (add_region_product e i b u s) = Inr ()
               \<and> region_products (stored s1) = region_products (work s) @ [new]
               \<and> relations_of_pair s1 i (ref_id b) = [new]
               \<and> fst (add_region_product e i b' u s1) = Inr ()
               \<and> region_products (stored s2) = region_products (work s) @ [new']
               \<and> relations_of_pair s2 i (ref_id b) = [new']
               \<and> (ref_enabled b' = None \<longrightarrow> s2 = s1)"
    if empty: "relations_of_pair s i (ref_id b) = []"
  proof -
    note step1 = add_region_product_new [OF assms(1-4) empty, folded new_def]
    have s1_eq: "s1 = s\<lparr>stored := (work s)\<lparr>region_products := region_products (work s) @ [new]\<rparr>,
              work := (work s)\<lparr>region_products := region_products (work s) @ [new]\<rparr>,
              journal := journal s @ [Add_relation new, Commit]\<rparr>"
      by (simp add: s1_def step1)
    have old: "filter (\<lambda>x. region_id x = i \<and> product_id x = ref_id b)
        (region_products (work s)) = []"
      using empty by (simp add: relations_of_pair_def)
    have rel1: "relations_of_pair s1 i (ref_id b) = [new]"
      using old by (simp add: relations_of_pair_def s1_eq new_def)
    have reg1: "region_get s1 i = Some r"
      using assms(1) by (simp add: region_get_def s1_eq)
    have prod1: "product_get s1 (ref_id b') = Some p"
      using assms(3,5) by (simp add: product_get_def s1_eq)
    have bud1: "budget s1 = None" using assms(4) by (simp add: s1_eq)
    have ne1: "relations_of_pair s1 i (ref_id b') \<noteq> []"
      using rel1 assms(5) by simp
    note step2 = add_region_product_existing [OF reg1 assms(2) prod1 bud1 ne1]
    have upd: "map (\<lambda>x. if region_id x = i \<and> product_id x = ref_id b
                         then x\<lparr>rp_enabled := v\<rparr> else x) (region_products (work s))
        = region_products (work s)" for v
      using old by (rule map_unmatched)
    have ok2: "fst (add_region_product e i b' u s1) = Inr ()"
      by (simp add: step2 split: option.splits)
    have s2_eq: "s2 = (case ref_enabled b' of
        None \<Rightarrow> s1
      | Some v \<Rightarrow>
          s1\<lparr>stored := (work s1)\<lparr>region_products :=
                        map (\<lambda>x. if region_id x = i \<and> product_id x = ref_id b'
                                 then x\<lparr>rp_enabled := v\<rparr> else x) (region_products (work s1))\<rparr>,
             work := (work s1)\<lparr>region_products :=
                        map (\<lambda>x. if region_id x = i \<and> product_id x = ref_id b'
                                 then x\<lparr>rp_enabled := v\<rparr> else x) (region_products (work s1))\<rparr>,
             journal := journal s1 @ [Commit]\<rparr>)"
      by (simp add: s2_def step2 split: option.splits)
    have none2: "ref_enabled b' = None \<longrightarrow> s2 = s1"
      by (simp add: s2_eq)
    have wk1: "region_products (work s1) = region_products (work s) @ [new]"
      and st1: "region_products (stored s1) = region_products (work s) @ [new]"
      by (simp_all add: s1_eq)
    have st2: "region_products (stored s2) = region_products (work s) @ [new']"
      using upd
      by (cases "ref_enabled b'")
         (simp_all add: s2_eq wk1 st1 assms(5), simp_all add: new'_def new_def)
    have wk2: "region_products (work s2) = region_products (work s) @ [new']"
      using upd
      by (cases "ref_enabled b'")
         (simp_all add: s2_eq wk1 st1 assms(5), simp_all add: new'_def new_def)
    have rel2: "relations_of_pair s2 i (ref_id b) = [new']"
      using old by (simp add: relations_of_pair_def wk2) (simp add: new'_def new_def)
    show ?thesis
      using step1 s1_eq rel1 ok2 st2 rel2 none2 by simp
  qed
  have second: "fst (add_region_product e i b u s) = Inr ()
               \<and> length (region_products (work s1)) = length (region_products (work s))
               \<and> length (relations_of_pair s1 i (ref_id b))
                   = length (relations_of_pair s i (ref_id b))
               \<and> (ref_enabled b = None \<longrightarrow> s1 = s)
               \<and> (\<forall>v. ref_enabled b = Some v \<longrightarrow>
                     region_products (stored s1)
                       = map (\<lambda>x. if region_id x = i \<and> product_id x = ref_id b
                                  then x\<lparr>rp_enabled := v\<rparr> else x)
                           (region_products (work s)))"
    if ne: "relations_of_pair s i (ref_id b) \<noteq> []"
  proof -
    note step = add_region_product_existing [OF assms(1-4) ne]
    show ?thesis
      by (cases "ref_enabled b")
         (simp_all add: s1_def step relations_of_pair_def pair_filter_set_enabled)
  qed
  show ?thesis
    unfolding Let_def
    using first second
    by (simp only: new_def [symmetric] new'_def [symmetric] s1_def [symmetric]
        s2_def [symmetric]) blast
qed

theorem add_region_product_upsert_witness:
  "region_get sample_session 1 = Some region_a
   \<and> user_can_modify_region sample_env region_a 3
   \<and> budget sample_session = None
   \<and> relations_of_pair sample_session 1 8 = []
   \<and> region_products (stored (snd (add_region_product sample_env 1
         \<lparr>ref_id = 8, ref_enabled = None\<rparr> 3 sample_session)))
       = region_products sample_db @ [\<lparr>region_id = 1, product_id = 8, rp_enabled = True\<rparr>]
   \<and> region_products (stored (snd (add_region_product sample_env 1
         \<lparr>ref_id = 8, ref_enabled = Some False\<rparr> 3
         (snd (add_region_product sample_env 1
            \<lparr>ref_id = 8, ref_enabled = None\<rparr> 3 sample_session)))))
       = region_products sample_db @ [\<lparr>region_id = 1, product_id = 8, rp_enabled = False\<rparr>]
   \<and> relations_of_pair sample_session 1 7 \<noteq> []
   \<and> snd (add_region_product sample_env 1 \<lparr>ref_id = 7, ref_enabled = None\<rparr> 3 sample_session)
       = sample_session"
proof -
  have reg: "region_get sample_session 1 = Some region_a"
    by (simp add: region_get_def sample_defs)
  have can: "user_can_modify_region sample_env region_a 3"
    by (simp add: user_can_modify_region_def sample_env_def)
  have p8: "product_get sample_session (ref_id \<lparr>ref_id = 8, ref_enabled = None\<rparr>)
      = Some \<lparr>pid = 8, product_name = ''fedora'', product_enabled = True\<rparr>"
    by (simp add: product_get_def sample_defs)
  have p7: "product_get sample_session (ref_id \<lparr>ref_id = 7, ref_enabled = None\<rparr>)
      = Some \<lparr>pid = 7, product_name = ''rhel'', product_enabled = True\<rparr>"
    by (simp add: product_get_def sample_defs)
  have bud: "budget sample_session = None" by (simp add: sample_session_def)
  have e8: "relations_of_pair sample_session 1 8 = []"
    by (simp add: relations_of_pair_def sample_defs)
  have e7: "relations_of_pair sample_session 1 7 \<noteq> []"
    by (simp add: relations_of_pair_def sample_defs)
  have w: "work sample_session = sample_db" by (simp add: sample_session_def)
  note t8 = add_region_product_upsert [OF reg can p8 bud,
      where b' = "\<lparr>ref_id = 8, ref_enabled = Some False\<rparr>", unfolded Let_def]
  note t7 = add_region_product_upsert [OF reg can p7 bud,
      where b' = "\<lparr>ref_id = 7, ref_enabled = None\<rparr>", unfolded Let_def]
  have a: "region_products (stored (snd (add_region_product sample_env 1
         \<lparr>ref_id = 8, ref_enabled = None\<rparr> 3 sample_session)))
       = region_products sample_db @ [\<lparr>region_id = 1, product_id = 8, rp_enabled = True\<rparr>]
     \<and> region_products (stored (snd (add_region_product sample_env 1
         \<lparr>ref_id = 8, ref_enabled = Some False\<rparr> 3
         (snd (add_region_product sample_env 1
            \<lparr>ref_id = 8, ref_enabled = None\<rparr> 3 sample_session)))))
       = region_products sample_db @ [\<lparr>region_id = 1, product_id = 8, rp_enabled = False\<rparr>]"
    using t8 e8 w by simp
  have b: "snd (add_region_product sample_env 1 \<lparr>ref_id = 7, ref_enabled = None\<rparr> 3
        sample_session) = sample_session"
    using t7 e7 by simp
  show ?thesis using reg can bud e8 e7 a b by simp
qed

section \<open>Deleting a region with its associations\<close>

lemma fold_session_delete_relation:
  "fold session_delete_relation q s =
     s\<lparr>work := (work s)\<lparr>region_products :=
                 filter (\<lambda>x. \<forall>rel \<in> set q. \<not> same_key x rel) (region_products (work s))\<rparr>,
       journal := journal s @ map Delete_relation q\<rparr>"
proof (induction q arbitrary: s)
  case Nil
  then show ?case by simp
next
  case (Cons rel q)
  show ?case
    by (simp add: Cons.IH) (auto simp: session_delete_relation_def intro: filter_cong)
qed

lemma delete_all_of_region:
  "filter (\<lambda>x. \<forall>rel. rel \<in> set rps \<and> region_id rel = i \<longrightarrow> \<not> same_key x rel) rps
     = filter (\<lambda>x. region_id x \<noteq> i) rps"
  by (rule filter_cong) (auto simp: same_key_def)

lemma no_relations_unchanged:
  "filter (\<lambda>x. region_id x = i) rps = [] \<Longrightarrow> filter (\<lambda>x. region_id x \<noteq> i) rps = rps"
  by (induction rps) (auto split: if_splits)

lemma delete_region_run:
  assumes "region_get s i = Some r" and "user_can_modify_region e r u"
  shows "delete_region e i u s =
     (let q = relations_of_region s i
      in case (if q \<noteq> [] then flush (fold session_delete_relation q s) else (Inr (), s)) of
           (Inl err, s1) \<Rightarrow> (Inl err, s1)
         | (Inr _, s1) \<Rightarrow> commit (session_delete_region r s1))"
  using assms region_get_rid [OF assms(1)]
  by (simp add: delete_region_def Let_def)

lemma delete_region_success:
  assumes "region_get s i = Some r" and "user_can_modify_region e r u"
    and "work s = stored s"
    and "case budget s of None \<Rightarrow> True
         | Some n \<Rightarrow> (if relations_of_region s i = [] then 1 else 2) \<le> n"
  shows "fst (delete_region e i u s) = Inr ()"
    and "regions (stored (snd (delete_region e i u s)))
           = filter (\<lambda>x. rid x \<noteq> i) (regions (stored s))"
    and "region_products (stored (snd (delete_region e i u s)))
           = filter (\<lambda>x. region_id x \<noteq> i) (region_products (stored s))"
    and "work (snd (delete_region e i u s)) = stored (snd (delete_region e i u s))"
    and "journal (snd (delete_region e i u s))
           = journal s @ map Delete_relation (relations_of_region s i)
             @ (if relations_of_region s i = [] then [] else [Flush])
             @ [Delete_region r, Commit]"
  using assms(3,4) region_get_rid [OF assms(1)]
  unfolding delete_region_run [OF assms(1,2)] Let_def fold_session_delete_relation
  by (auto simp: flush_def commit_def session_delete_region_def relations_of_region_def
      delete_all_of_region no_relations_unchanged split: option.splits nat.splits if_splits)

lemma delete_region_failure:
  assumes "region_get s i = Some r" and "user_can_modify_region e r u"
    and "work s = stored s"
    and "case budget s of None \<Rightarrow> False
         | Some n \<Rightarrow> n < (if relations_of_region s i = [] then 1 else 2)"
  shows "fst (delete_region e i u s) = Inl StorageError"
    and "stored (snd (delete_region e i u s)) = stored s"
    and "work (snd (delete_region e i u s)) = stored s"
  using assms(3,4) region_get_rid [OF assms(1)]
  unfolding delete_region_run [OF assms(1,2)] Let_def fold_session_delete_relation
  by (auto simp: flush_def commit_def session_delete_region_def relations_of_region_def
      rollback_def split: option.splits nat.splits if_splits)

text \<open>
  Claim C6. For a region found under id \<open>i\<close> with its associations \<open>q\<close>, a caller with
  write access and a session with no pending writes: \<^verbatim>\<open>delete_region\<close> deletes every
  association of the region, flushes when there was one, then deletes the region and
  commits once. When the store lets these calls through, the stored state afterwards has
  neither the region nor any association of it, and the other rows are as before. When
  the store fails at the flush or at the commit, the outcome is the storage error and the
  stored state is the one before the call: region and associations are all in place.
\<close>

theorem delete_region_atomic:
  assumes "region_get s i = Some r" and "user_can_modify_region e r u"
    and "work s = stored s"
  shows "let q = relations_of_region s i;
             needed = (if q = [] then 1 else 2 :: nat);
             s' = snd (delete_region e i u s)
         in ((case budget s of None \<Rightarrow> True | Some n \<Rightarrow> needed \<le> n) \<longrightarrow>
               fst (delete_region e i u s) = Inr ()
               \<and> regions (stored s') = filter (\<lambda>x. rid x \<noteq> i) (regions (stored s))
               \<and> region_products (stored s')
                   = filter (\<lambda>x. region_id x \<noteq> i) (region_products (stored s))
               \<and> region_get s' i = None
               \<and> relations_of_region s' i = []
               \<and> journal s' = journal s @ map Delete_relation q
                     @ (if q = [] then [] else [Flush]) @ [Delete_region r, Commit])
          \<and> ((case budget s of None \<Rightarrow> False | Some n \<Rightarrow> n < needed) \<longrightarrow>
               fst (delete_region e i u s) = Inl StorageError
               \<and> stored s' = stored s
               \<and> work s' = stored s)"
proof -
  define s' where "s' = snd (delete_region e i u s)"
  have ok: "fst (delete_region e i u s) = Inr ()
               \<and> regions (stored s') = filter (\<lambda>x. rid x \<noteq> i) (regions (stored s))
               \<and> region_products (stored s')
                   = filter (\<lambda>x. region_id x \<noteq> i) (region_products (stored s))
               \<and> region_get s' i = None
               \<and> relations_of_region s' i = []
               \<and> journal s' = journal s @ map Delete_relation (relations_of_region s i)
                     @ (if relations_of_region s i = [] then [] else [Flush])
                     @ [Delete_region r, Commit]"
    if b: "case budget s of None \<Rightarrow> True
           | Some n \<Rightarrow> (if relations_of_region s i = [] then 1 else 2) \<le> n"
  proof -
    note d = delete_region_success [OF assms b, folded s'_def]
    have gone: "region_get s' i = None"
      by (simp add: region_get_def d(4) d(2) find_None_iff)
    have none: "relations_of_region s' i = []"
      by (simp add: relations_of_region_def d(4) d(3))
    show ?thesis using d gone none by simp
  qed
  have bad: "fst (delete_region e i u s) = Inl StorageError
               \<and> stored s' = stored s \<and> work s' = stored s"
    if b: "case budget s of None \<Rightarrow> False
           | Some n \<Rightarrow> n < (if relations_of_region s i = [] then 1 else 2)"
    using delete_region_failure [OF assms b, folded s'_def] by simp
  show ?thesis
    unfolding Let_def s'_def [symmetric] using ok bad by blast
qed

theorem delete_region_atomic_witness:
  "region_get sample_session 2 = Some region_b
   \<and> user_can_modify_region sample_env region_b 2
   \<and> work sample_session = stored sample_session
   \<and> length (relations_of_region sample_session 2) = 2
   \<and> fst (delete_region sample_env 2 2 sample_session) = Inr ()
   \<and> regions (stored (snd (delete_region sample_env 2 2 sample_session))) = [region_a]
   \<and> region_products (stored (snd (delete_region sample_env 2 2 sample_session)))
       = [\<lparr>region_id = 1, product_id = 7, rp_enabled = True\<rparr>]
   \<and> journal (snd (delete_region sample_env 2 2 sample_session))
       = [Delete_relation \<lparr>region_id = 2, product_id = 7, rp_enabled = False\<rparr>,
          Delete_relation \<lparr>region_id = 2, product_id = 8, rp_enabled = True\<rparr>,
          Flush, Delete_region region_b, Commit]
   \<and> fst (delete_region sample_env 2 2 (sample_session\<lparr>budget := Some 1\<rparr>))
       = Inl StorageError
   \<and> stored (snd (delete_region sample_env 2 2 (sample_session\<lparr>budget := Some 1\<rparr>)))
       = sample_db"
proof -
  let ?s1 = "sample_session\<lparr>budget := Some 1\<rparr>"
  have reg: "region_get sample_session 2 = Some region_b"
    by (simp add: region_get_def sample_defs)
  have reg1: "region_get ?s1 2 = Some region_b"
    by (simp add: region_get_def sample_defs)
  have can: "user_can_modify_region sample_env region_b 2"
    by (simp add: user_can_modify_region_def sample_env_def region_b_def)
  have cl: "work sample_session = stored sample_session" by (simp add: sample_session_def)
  have cl1: "work ?s1 = stored ?s1" by (simp add: sample_session_def)
  have q: "relations_of_region sample_session 2
      = [\<lparr>region_id = 2, product_id = 7, rp_enabled = False\<rparr>,
         \<lparr>region_id = 2, product_id = 8, rp_enabled = True\<rparr>]"
    by (simp add: relations_of_region_def sample_session_def sample_db_def)
  have q1: "relations_of_region ?s1 2 = relations_of_region sample_session 2"
    by (simp add: relations_of_region_def)
  have n1: "relations_of_region ?s1 2 \<noteq> []" using q1 q by simp
  note t = delete_region_atomic [OF reg can cl, unfolded Let_def]
  note t1 = delete_region_atomic [OF reg1 can cl1, unfolded Let_def]
  have a: "fst (delete_region sample_env 2 2 sample_session) = Inr ()
     \<and> regions (stored (snd (delete_region sample_env 2 2 sample_session)))
         = filter (\<lambda>x. rid x \<noteq> 2) (regions (stored sample_session))
     \<and> region_products (stored (snd (delete_region sample_env 2 2 sample_session)))
         = filter (\<lambda>x. region_id x \<noteq> 2) (region_products (stored sample_session))
     \<and> journal (snd (delete_region sample_env 2 2 sample_session))
         = journal sample_session @ map Delete_relation (relations_of_region sample_session 2)
           @ (if relations_of_region sample_session 2 = [] then [] else [Flush])
           @ [Delete_region region_b, Commit]"
    using t by (simp add: sample_session_def)
  have b: "fst (delete_region sample_env 2 2 ?s1) = Inl StorageError
     \<and> stored (snd (delete_region sample_env 2 2 ?s1)) = stored ?s1"
    using t1 n1 by simp
  show ?thesis
    using reg can cl a b
    by (simp add: q) (simp add: sample_session_def sample_db_def region_a_def region_b_def)
qed

section \<open>The usage merge on absent operands\<close>

text \<open>What one pass of the loop body does when an operand is there.\<close>

lemma add_entry_sum:
  "getitem usage2 key = Inr (Some y) \<Longrightarrow> add_entry (Some x) usage2 key = Inr (Some (x + y))"
  by (simp add: add_entry_def)

lemma add_entry_keeps_nonzero:
  "x \<noteq> 0 \<Longrightarrow> getitem usage2 key = Inr None \<Longrightarrow> add_entry (Some x) usage2 key = Inr (Some x)"
  by (simp add: add_entry_def)

lemma add_entry_keeps_nonzero_on_error:
  "x \<noteq> 0 \<Longrightarrow> getitem usage2 key = Inl err \<Longrightarrow> add_entry (Some x) usage2 key = Inr (Some x)"
  by (simp add: add_entry_def)

lemma add_entry_takes_second:
  "y \<noteq> 0 \<Longrightarrow> getitem usage2 key = Inr (Some y) \<Longrightarrow> add_entry None usage2 key = Inr (Some y)"
  by (simp add: add_entry_def)

text \<open>
  Claim C3, evaluated. \<^verbatim>\<open>add_usage\<close> sums two numbers, and keeps a non-zero number of
  the first operand when the second operand is \<^verbatim>\<open>None\<close>. It does not keep a present
  \<open>0\<close>: next to a \<^verbatim>\<open>None\<close> entry the result is \<^verbatim>\<open>None\<close>, and next to a
  \<^verbatim>\<open>None\<close> sub-field the handler's own lookup raises \<^verbatim>\<open>TypeError\<close>. When the first
  operand is a \<^verbatim>\<open>None\<close> sub-field, \<^verbatim>\<open>usage1.keys()\<close> raises \<^verbatim>\<open>AttributeError\<close>
  whatever the second operand is.
\<close>

theorem add_usage_missed_cases:
  "add_usage (Some [(''num_vcpus'', Some 4)]) (Some [(''num_vcpus'', Some 3)])
     = Inr [(''num_vcpus'', Some 7)]
   \<and> add_usage (Some [(''num_vcpus'', Some 4)]) None = Inr [(''num_vcpus'', Some 4)]
   \<and> add_usage (Some [(''num_vcpus'', None)]) (Some [(''num_vcpus'', Some 0)])
     = Inr [(''num_vcpus'', None)]
   \<and> add_usage (Some [(''num_vcpus'', Some 0)]) (Some [(''num_vcpus'', None)])
     = Inr [(''num_vcpus'', None)]
   \<and> add_usage (Some [(''num_vcpus'', Some 0)]) None = Inl TypeError
   \<and> add_usage None (Some [(''num_vcpus'', Some 4)]) = Inl AttributeError"
  by (simp add: add_usage_def add_entry_def getitem_def)

section \<open>The aggregate and the order of regions\<close>

text \<open>
  Claim C4, evaluated. For an admin the sample store lists a region without user quota and
  then a region with one: \<^verbatim>\<open>get_all_usage\<close> raises \<^verbatim>\<open>AttributeError\<close>. With the same
  two regions in the other order it returns an aggregate.
\<close>

theorem get_all_usage_order_dependent:
  "query_regions_with_permissions sample_env 0 (work sample_session) = [region_a, region_b]
   \<and> get_all_usage sample_env 0 sample_session = Inl AttributeError
   \<and> query_regions_with_permissions sample_env 0
        (work (sample_session\<lparr>work := sample_db\<lparr>regions := [region_b, region_a]\<rparr>\<rparr>))
       = [region_b, region_a]
   \<and> map_sum id usage_all
        (get_all_usage sample_env 0
           (sample_session\<lparr>work := sample_db\<lparr>regions := [region_b, region_a]\<rparr>\<rparr>))
       = Inr \<lparr>usage_user_quota = Some [(''num_vcpus'', Some 4), (''ram_mb'', Some 2048)],
              usage_user_quota_usage = Some [(''num_vcpus'', Some 8), (''ram_mb'', Some 4096)],
              usage_total_quota = Some [(''num_vcpus'', Some 8), (''ram_mb'', Some 4096)],
              usage_total_quota_usage = Some [(''num_vcpus'', Some 8), (''ram_mb'', Some 4096)]\<rparr>"
  by (simp add: get_all_usage_def query_regions_with_permissions_def merge_usage_def
      region_to_usage_def add_usage_def add_entry_def getitem_def sample_defs)

section \<open>The name filter of list_region_products\<close>

text \<open>
  Claim C7, evaluated. For a region found under id \<open>i\<close>, a caller with read access and a
  filter that has a name pattern: without \<^verbatim>\<open>enabled\<close> in the filter,
  \<^verbatim>\<open>list_region_products\<close> raises \<^verbatim>\<open>KeyError\<close>; with it, the call raises
  \<^verbatim>\<open>ArgumentError\<close>, because the \<^verbatim>\<open>enabled\<close> value is given to \<^verbatim>\<open>ilike\<close> on the
  region name; so no association is ever returned, and the outcome does not depend on the
  pattern.
\<close>

theorem list_region_products_name_filter:
  assumes "region_get s i = Some r" and "user_can_access_region e r u"
    and "pf_name f = Some pat"
  shows "(pf_enabled f = None \<longrightarrow> list_region_products e i u f s = Inl (KeyError ''enabled''))
    \<and> (\<forall>b. pf_enabled f = Some b \<longrightarrow> list_region_products e i u f s = Inl ArgumentError)
    \<and> list_region_products e i u (f\<lparr>pf_name := Some pat'\<rparr>) s = list_region_products e i u f s"
  using assms region_get_rid [OF assms(1)]
  by (auto simp: list_region_products_def Let_def split: option.splits)

theorem list_region_products_name_filter_witness:
  "region_get sample_session 1 = Some region_a
   \<and> user_can_access_region sample_env region_a 3
   \<and> list_region_products sample_env 1 3 \<lparr>pf_name = Some ''rhel'', pf_enabled = None\<rparr>
        sample_session = Inl (KeyError ''enabled'')
   \<and> list_region_products sample_env 1 3 \<lparr>pf_name = Some ''rhel'', pf_enabled = Some True\<rparr>
        sample_session = Inl ArgumentError"
proof -
  have reg: "region_get sample_session 1 = Some region_a"
    by (simp add: region_get_def sample_defs)
  have acc: "user_can_access_region sample_env region_a 3"
    by (simp add: user_can_access_region_def region_a_def)
  have nm: "pf_name \<lparr>pf_name = Some ''rhel'', pf_enabled = None\<rparr> = Some ''rhel''" by simp
  have nm': "pf_name \<lparr>pf_name = Some ''rhel'', pf_enabled = Some True\<rparr> = Some ''rhel''"
    by simp
  show ?thesis
    using reg acc list_region_products_name_filter [OF reg acc nm]
      list_region_products_name_filter [OF reg acc nm'] by auto
qed

end
